theory Spec2Isabelle
  imports Complex_Main
begin

section \<open>Data model\<close>

text \<open>
  An entity mention as the entity tagger returns it: a dictionary with the keys
  \<^verbatim>\<open>word\<close>, \<^verbatim>\<open>entity\<close>, \<^verbatim>\<open>start\<close> and \<^verbatim>\<open>end\<close>.
\<close>

record entity =
  ent_word :: string
  ent_label :: string
  ent_start :: int
  ent_end :: int

text \<open>
  A relation-extraction candidate built by \<^verbatim>\<open>build_perm\<close>: the dictionary
  \<^verbatim>\<open>{"text": line, "spans": [(start, end), (start, end)]}\<close>.
\<close>

record perm =
  perm_text :: string
  perm_spans :: "(int \<times> int) list"

type_synonym triple = "string \<times> string \<times> string"

section \<open>Permutation builder\<close>

text \<open>
  \<^verbatim>\<open>itertools.permutations(pool, 2)\<close>: every ordered pair of two different positions
  of the pool, in lexicographic order of the positions. Elements are told apart by
  position, not by value.
\<close>

definition permutations2 :: "'a list \<Rightarrow> ('a \<times> 'a) list" where
  "permutations2 pool =
     concat (map (\<lambda>i. map (\<lambda>j. (pool ! i, pool ! j))
                          (filter (\<lambda>j. j \<noteq> i) [0..<length pool]))
                 [0..<length pool])"

text \<open>The tuple \<^verbatim>\<open>(entity["start"], entity["end"])\<close> of a mention.\<close>

definition span :: "entity \<Rightarrow> int \<times> int" where
  "span e = (ent_start e, ent_end e)"

definition build_perm :: "string list \<Rightarrow> entity list list \<Rightarrow> perm list list" where
  "build_perm lines total_entities =
     map (\<lambda>(line, line_entities).
            map (\<lambda>comb. \<lparr>perm_text = line, perm_spans = [span (fst comb), span (snd comb)]\<rparr>)
                (permutations2 line_entities))
         (zip lines total_entities)"

section \<open>Comparability filter\<close>

definition filter_out :: "triple set \<Rightarrow> triple set \<Rightarrow> triple set \<times> triple set" where
  "filter_out sources summaries =
     (let source_tuple = (\<lambda>source. (fst source, fst (snd source))) ` sources;
          summary_tuple = (\<lambda>summary. (fst summary, fst (snd summary))) ` summaries
      in (Set.filter (\<lambda>source. (fst source, fst (snd source)) \<in> summary_tuple) sources,
          Set.filter (\<lambda>summary. (fst summary, fst (snd summary)) \<in> source_tuple) summaries))"

section \<open>Orchestrator state, adapters and effects\<close>

text \<open>
  The exceptions of a run: the explicit \<^verbatim>\<open>ValueError\<close> of the entry point,
  \<^verbatim>\<open>TypeError\<close> when a slot that still holds a model name (or \<^verbatim>\<open>None\<close>) is
  called, \<^verbatim>\<open>ZeroDivisionError\<close>, \<^verbatim>\<open>IndexError\<close>, and the \<^verbatim>\<open>MarkupError\<close> that
  \<^verbatim>\<open>rich.print\<close> raises on a string with an unmatched closing tag.
\<close>

datatype error = ValueError | TypeError | ZeroDivisionError | IndexError | MarkupError

text \<open>
  An adapter field of the instance holds either the model name it was configured with
  (a \<^verbatim>\<open>str\<close>) or the handle a loader returned. A handle is the closure
  \<^verbatim>\<open>load_x(name, device)\<close>; it is represented by the two arguments it was built
  from. The field \<^verbatim>\<open>ie\<close> starts as \<^verbatim>\<open>None\<close> and \<^verbatim>\<open>load_ie()\<close> takes no argument.
\<close>

datatype slot = Name string | Loaded string string

datatype ie_slot = NoIE | LoadedIE

record factsumm =
  ner :: slot
  rel :: slot
  qg :: slot
  qa :: slot
  bert_score :: slot
  ie :: ie_slot

record question_item =
  qi_question :: string
  qi_answer :: string

record answer_item =
  ans_question :: string
  ans_prediction :: string

record ie_item =
  ie_subject :: string
  ie_relation :: string
  ie_object :: string

text \<open>
  What the verbose mode prints, by the data printed rather than by its text. The module's
  \<^verbatim>\<open>print\<close> is \<^verbatim>\<open>rich.print\<close>.
  \<^item> \<open>EntitiesHeader\<close>, \<open>EntityLine\<close> and \<open>Blank\<close> are the three kinds of call in
    \<^verbatim>\<open>_print_entities\<close>: the header, one line per sentence with its number and its
    \<^verbatim>\<open>(word, entity)\<close> pairs, and the closing empty \<^verbatim>\<open>print()\<close>.
  \<^item> \<open>QasHeader\<close>, \<open>QaLine\<close> and \<open>Blank\<close> are those of \<^verbatim>\<open>_print_qas\<close>; a
    \<open>QaLine\<close> carries the question and the prediction of
    \<^verbatim>\<open>f"[Q] {question['question']}\t[Pred] {question['prediction']}"\<close>.
  \<^item> \<open>FactsOut\<close> and \<open>TriplesOut\<close> stand for a whole call of \<^verbatim>\<open>_print_facts\<close> or
    \<^verbatim>\<open>_print_triples\<close>: the header, the tuples of the set (in the set's own order) and
    the empty line.
  \<^item> \<open>ScoreOut\<close>, \<open>RougeOut\<close> and \<open>BertOut\<close> are the lines that report scores.
\<close>

datatype out =
  EntitiesHeader string
| EntityLine nat "(string \<times> string) list"
| QasHeader string
| QaLine string string
| Blank
| FactsOut string "triple set"
| TriplesOut string "triple set"
| ScoreOut string real
| RougeOut real real real
| BertOut real real real

text \<open>
  Everything the module imports and does not define: the defaults of \<^verbatim>\<open>Config\<close>, the
  builtin \<^verbatim>\<open>str.strip\<close>, the sentence segmenter, the models behind the loaders
  (each a function of the model name, the device and its input), the ROUGE calculator,
  \<^verbatim>\<open>qags_score\<close>, and the markup parser of \<^verbatim>\<open>rich.print\<close>: \<open>markup_error\<close> says
  whether printing the text of a line raises \<^verbatim>\<open>MarkupError\<close>. They are parameters of
  the model, taken as total, deterministic functions.
\<close>

record env =
  cfg_ner_model :: string
  cfg_rel_model :: string
  cfg_qg_model :: string
  cfg_qa_model :: string
  cfg_bert_score_model :: string
  str_strip :: "string \<Rightarrow> string"
  segment_fn :: "string \<Rightarrow> string list"
  ner_fn :: "string \<Rightarrow> string \<Rightarrow> string list \<Rightarrow> entity list list"
  rel_fn :: "string \<Rightarrow> string \<Rightarrow> perm list \<Rightarrow> triple list"
  qg_fn :: "string \<Rightarrow> string \<Rightarrow> string list \<Rightarrow> entity list list \<Rightarrow> question_item list"
  qa_fn :: "string \<Rightarrow> string \<Rightarrow> string \<Rightarrow> question_item list \<Rightarrow> answer_item list"
  ie_fn :: "string \<Rightarrow> ie_item list"
  bert_fn :: "string \<Rightarrow> string \<Rightarrow> string list \<Rightarrow> string list \<Rightarrow> real list list"
  rouge_n_fn :: "string \<Rightarrow> string list \<Rightarrow> nat \<Rightarrow> real"
  rouge_l_fn :: "string \<Rightarrow> string list \<Rightarrow> real"
  qags_score_fn :: "answer_item list \<Rightarrow> answer_item list \<Rightarrow> real"
  markup_error :: "out \<Rightarrow> bool"

text \<open>The trace of a run: loads, adapter invocations and prints, in order.\<close>

datatype event =
  LoadNer string string
| LoadRel string string
| LoadQg string string
| LoadQa string string
| LoadBert string string
| LoadIe
| CallSegment string
| CallNer string string "string list"
| CallRel string string "perm list"
| CallQg string string "string list" "entity list list"
| CallQa string string string "question_item list"
| CallIe string
| CallBert string string "string list" "string list"
| CallRougeN string "string list" nat
| CallRougeL string "string list"
| Print out

fun is_print :: "event \<Rightarrow> bool" where
  "is_print (Print x) = True"
| "is_print e = False"

fun is_load :: "event \<Rightarrow> bool" where
  "is_load (LoadNer n d) = True"
| "is_load (LoadRel n d) = True"
| "is_load (LoadQg n d) = True"
| "is_load (LoadQa n d) = True"
| "is_load (LoadBert n d) = True"
| "is_load LoadIe = True"
| "is_load e = False"

text \<open>
  A method of the instance: from the instance's fields to a result or an exception, the
  fields afterwards, and the events of the run.
\<close>

type_synonym 'a run = "factsumm \<Rightarrow> (error + 'a) \<times> factsumm \<times> event list"

definition ret :: "'a \<Rightarrow> 'a run" where
  "ret x s = (Inr x, s, [])"

definition throw :: "error \<Rightarrow> 'a run" where
  "throw e s = (Inl e, s, [])"

definition emit :: "event list \<Rightarrow> unit run" where
  "emit evs s = (Inr (), s, evs)"

definition seq :: "'a run \<Rightarrow> ('a \<Rightarrow> 'b run) \<Rightarrow> 'b run" where
  "seq m f s =
     (case m s of
        (Inl e, s', ev) \<Rightarrow> (Inl e, s', ev)
      | (Inr x, s', ev) \<Rightarrow> (case f x s' of (r, s'', ev') \<Rightarrow> (r, s'', ev @ ev')))"

definition lift :: "error + 'a \<Rightarrow> 'a run" where
  "lift r s = (r, s, [])"

text \<open>
  One call of \<^verbatim>\<open>print\<close>. \<^verbatim>\<open>rich.print\<close> parses markup in a \<^verbatim>\<open>str\<close> argument and
  raises \<^verbatim>\<open>MarkupError\<close> on a closing tag such as \<^verbatim>\<open>[/x]\<close> that matches no open
  tag. Two prints embed text that comes from the adapters, and so from the input: the
  entity words of an \<open>EntityLine\<close> and the question and prediction of a \<open>QaLine\<close>.
  The other lines are literals and formatted numbers, which hold no tag, and the tuples
  of \<^verbatim>\<open>_print_facts\<close> and \<^verbatim>\<open>_print_triples\<close> are not \<^verbatim>\<open>str\<close> and are printed
  without markup parsing.
\<close>

fun print_call :: "env \<Rightarrow> out \<Rightarrow> unit run" where
  "print_call E (EntityLine i pairs) s =
     (if markup_error E (EntityLine i pairs) then (Inl MarkupError, s, [])
      else (Inr (), s, [Print (EntityLine i pairs)]))"
| "print_call E (QaLine q p) s =
     (if markup_error E (QaLine q p) then (Inl MarkupError, s, [])
      else (Inr (), s, [Print (QaLine q p)]))"
| "print_call E x s = (Inr (), s, [Print x])"

fun print_all :: "env \<Rightarrow> out list \<Rightarrow> unit run" where
  "print_all E [] = ret ()"
| "print_all E (x # xs) = seq (print_call E x) (\<lambda>_. print_all E xs)"

definition print_if :: "env \<Rightarrow> bool \<Rightarrow> out list \<Rightarrow> unit run" where
  "print_if E verbose outs = (if verbose then print_all E outs else ret ())"

subsection \<open>Construction\<close>

definition init ::
  "env \<Rightarrow> string option \<Rightarrow> string option \<Rightarrow> string option \<Rightarrow> string option \<Rightarrow> string option
     \<Rightarrow> factsumm" where
  "init E ner_model rel_model qg_model qa_model bert_score_model =
     \<lparr>ner = Name (case ner_model of Some n \<Rightarrow> n | None \<Rightarrow> cfg_ner_model E),
      rel = Name (case rel_model of Some n \<Rightarrow> n | None \<Rightarrow> cfg_rel_model E),
      qg = Name (case qg_model of Some n \<Rightarrow> n | None \<Rightarrow> cfg_qg_model E),
      qa = Name (case qa_model of Some n \<Rightarrow> n | None \<Rightarrow> cfg_qa_model E),
      bert_score = Name (case bert_score_model of Some n \<Rightarrow> n | None \<Rightarrow> cfg_bert_score_model E),
      ie = NoIE\<rparr>"

subsection \<open>Invoking a slot\<close>

text \<open>Calling a field that still holds a \<^verbatim>\<open>str\<close> (or \<^verbatim>\<open>None\<close>) raises \<^verbatim>\<open>TypeError\<close>.\<close>

definition call_ner :: "env \<Rightarrow> string list \<Rightarrow> entity list list run" where
  "call_ner E lines s =
     (case ner s of
        Name n \<Rightarrow> throw TypeError s
      | Loaded m d \<Rightarrow> (Inr (ner_fn E m d lines), s, [CallNer m d lines]))"

definition call_rel :: "env \<Rightarrow> perm list \<Rightarrow> triple list run" where
  "call_rel E p s =
     (case rel s of
        Name n \<Rightarrow> throw TypeError s
      | Loaded m d \<Rightarrow> (Inr (rel_fn E m d p), s, [CallRel m d p]))"

definition call_qg :: "env \<Rightarrow> string list \<Rightarrow> entity list list \<Rightarrow> question_item list run" where
  "call_qg E lines ents s =
     (case qg s of
        Name n \<Rightarrow> throw TypeError s
      | Loaded m d \<Rightarrow> (Inr (qg_fn E m d lines ents), s, [CallQg m d lines ents]))"

definition call_qa :: "env \<Rightarrow> string \<Rightarrow> question_item list \<Rightarrow> answer_item list run" where
  "call_qa E context qas s =
     (case qa s of
        Name n \<Rightarrow> throw TypeError s
      | Loaded m d \<Rightarrow> (Inr (qa_fn E m d context qas), s, [CallQa m d context qas]))"

definition call_bert_score :: "env \<Rightarrow> string list \<Rightarrow> string list \<Rightarrow> real list list run" where
  "call_bert_score E cands refs s =
     (case bert_score s of
        Name n \<Rightarrow> throw TypeError s
      | Loaded m d \<Rightarrow> (Inr (bert_fn E m d cands refs), s, [CallBert m d cands refs]))"

definition call_ie :: "env \<Rightarrow> string \<Rightarrow> ie_item list run" where
  "call_ie E txt s =
     (case ie s of
        NoIE \<Rightarrow> throw TypeError s
      | LoadedIE \<Rightarrow> (Inr (ie_fn E txt), s, [CallIe txt]))"

subsection \<open>The lazy-loading guards\<close>

text \<open>
  \<^verbatim>\<open>if isinstance(self.ner, str) and isinstance(self.rel, str):\<close> loads both
  (\<^verbatim>\<open>extract_facts\<close>).
\<close>

definition load_ner_rel :: "string \<Rightarrow> unit run" where
  "load_ner_rel device s =
     (case (ner s, rel s) of
        (Name n, Name r) \<Rightarrow>
          (Inr (), s\<lparr>ner := Loaded n device, rel := Loaded r device\<rparr>,
           [LoadNer n device, LoadRel r device])
      | _ \<Rightarrow> (Inr (), s, []))"

text \<open>
  \<^verbatim>\<open>if isinstance(self.qg, str) and isinstance(self.qa, str):\<close> loads both
  (\<^verbatim>\<open>extract_qas\<close>).
\<close>

definition load_qg_qa :: "string \<Rightarrow> unit run" where
  "load_qg_qa device s =
     (case (qg s, qa s) of
        (Name g, Name a) \<Rightarrow>
          (Inr (), s\<lparr>qg := Loaded g device, qa := Loaded a device\<rparr>,
           [LoadQg g device, LoadQa a device])
      | _ \<Rightarrow> (Inr (), s, []))"

text \<open>\<^verbatim>\<open>if isinstance(self.ner, str):\<close> (\<^verbatim>\<open>extract_qas\<close>).\<close>

definition load_ner_only :: "string \<Rightarrow> unit run" where
  "load_ner_only device s =
     (case ner s of
        Name n \<Rightarrow> (Inr (), s\<lparr>ner := Loaded n device\<rparr>, [LoadNer n device])
      | Loaded m d \<Rightarrow> (Inr (), s, []))"

text \<open>\<^verbatim>\<open>if self.ie is None:\<close> (\<^verbatim>\<open>extract_triples\<close>).\<close>

definition load_ie_slot :: "unit run" where
  "load_ie_slot s =
     (case ie s of
        NoIE \<Rightarrow> (Inr (), s\<lparr>ie := LoadedIE\<rparr>, [LoadIe])
      | LoadedIE \<Rightarrow> (Inr (), s, []))"

text \<open>\<^verbatim>\<open>if isinstance(self.bert_score, str):\<close> (\<^verbatim>\<open>calculate_bert_score\<close>).\<close>

definition load_bert_slot :: "string \<Rightarrow> unit run" where
  "load_bert_slot device s =
     (case bert_score s of
        Name n \<Rightarrow> (Inr (), s\<lparr>bert_score := Loaded n device\<rparr>, [LoadBert n device])
      | Loaded m d \<Rightarrow> (Inr (), s, []))"


section \<open>The scoring operations\<close>

definition segment :: "env \<Rightarrow> string \<Rightarrow> string list" where
  "segment E txt = map (str_strip E) (segment_fn E txt)"

text \<open>A call of \<^verbatim>\<open>_segment\<close>, with the segmenter's invocation in the trace.\<close>

definition call_segment :: "env \<Rightarrow> string \<Rightarrow> string list run" where
  "call_segment E txt s = (Inr (segment E txt), s, [CallSegment txt])"

fun rel_loop :: "env \<Rightarrow> perm list list \<Rightarrow> triple list \<Rightarrow> triple list run" where
  "rel_loop E [] triples = ret triples"
| "rel_loop E (p # perms) triples =
     seq (call_rel E p) (\<lambda>r. rel_loop E perms (triples @ r))"

definition get_facts :: "env \<Rightarrow> string list \<Rightarrow> entity list list \<Rightarrow> triple set run" where
  "get_facts E lines entities =
     seq (rel_loop E (build_perm lines entities) []) (\<lambda>triples. ret (set triples))"

text \<open>The calls of \<^verbatim>\<open>print\<close> that \<^verbatim>\<open>_print_entities\<close> makes, in order.\<close>

definition print_entities :: "string \<Rightarrow> entity list list \<Rightarrow> out list" where
  "print_entities mode total_entities =
     EntitiesHeader mode
     # map (\<lambda>(i, line_entities).
              EntityLine (i + 1) (map (\<lambda>entity. (ent_word entity, ent_label entity)) line_entities))
           (enumerate 0 total_entities)
     @ [Blank]"

definition extract_facts ::
  "env \<Rightarrow> string \<Rightarrow> string \<Rightarrow> bool \<Rightarrow> string
     \<Rightarrow> (entity list list \<times> entity list list \<times> real) run" where
  "extract_facts E source summary verbose device =
     seq (load_ner_rel device) (\<lambda>_.
     seq (call_segment E source) (\<lambda>source_lines.
     seq (call_segment E summary) (\<lambda>summary_lines.
     seq (call_ner E source_lines) (\<lambda>source_ents.
     seq (call_ner E summary_lines) (\<lambda>summary_ents.
     seq (get_facts E source_lines source_ents) (\<lambda>source_facts0.
     seq (get_facts E summary_lines summary_ents) (\<lambda>summary_facts0.
       let source_facts = fst (filter_out source_facts0 summary_facts0);
           summary_facts = snd (filter_out source_facts0 summary_facts0);
           common_facts = summary_facts \<inter> source_facts;
           diff_facts = summary_facts - source_facts;
           fact_score = (if summary_facts = {} then 0
                         else real (card common_facts) / real (card summary_facts))
       in
     seq (print_if E verbose
            (print_entities ''source'' source_ents @ print_entities ''summary'' summary_ents
             @ [FactsOut ''source'' source_facts, FactsOut ''summary'' summary_facts,
                FactsOut ''common'' common_facts, FactsOut ''diff'' diff_facts])) (\<lambda>_.
     seq (print_if E verbose [ScoreOut ''Fact Score'' fact_score]) (\<lambda>_.
     ret (source_ents, summary_ents, fact_score))))))))))"

text \<open>The calls of \<^verbatim>\<open>print\<close> that \<^verbatim>\<open>_print_qas\<close> makes, in order.\<close>

definition print_qas :: "string \<Rightarrow> answer_item list \<Rightarrow> out list" where
  "print_qas mode questions =
     QasHeader mode
     # map (\<lambda>question. QaLine (ans_question question) (ans_prediction question)) questions
     @ [Blank]"

definition extract_qas ::
  "env \<Rightarrow> string \<Rightarrow> string \<Rightarrow> entity list list option \<Rightarrow> entity list list option \<Rightarrow> bool
     \<Rightarrow> string \<Rightarrow> real run" where
  "extract_qas E source summary source_ents summary_ents verbose device =
     seq (load_qg_qa device) (\<lambda>_.
     seq (load_ner_only device) (\<lambda>_.
     seq (call_segment E source) (\<lambda>source_lines.
     seq (call_segment E summary) (\<lambda>summary_lines.
     seq (case source_ents of None \<Rightarrow> call_ner E source_lines | Some ents \<Rightarrow> ret ents)
         (\<lambda>source_ents.
     seq (case summary_ents of None \<Rightarrow> call_ner E summary_lines | Some ents \<Rightarrow> ret ents)
         (\<lambda>summary_ents.
     seq (call_qg E summary_lines summary_ents) (\<lambda>summary_qas.
     seq (call_qa E source summary_qas) (\<lambda>source_answers.
     seq (call_qa E summary summary_qas) (\<lambda>summary_answers.
     seq (print_if E verbose
            (print_qas ''source'' source_answers @ print_qas ''summary'' summary_answers)) (\<lambda>_.
       let qa_score = qags_score_fn E source_answers summary_answers in
     seq (print_if E verbose [ScoreOut ''QAGS Score'' qa_score]) (\<lambda>_.
     ret qa_score)))))))))))"

definition ie_triples :: "ie_item list \<Rightarrow> triple set" where
  "ie_triples items = set (map (\<lambda>t. (ie_subject t, ie_relation t, ie_object t)) items)"

definition extract_triples :: "env \<Rightarrow> string \<Rightarrow> string \<Rightarrow> bool \<Rightarrow> real run" where
  "extract_triples E source summary verbose =
     seq load_ie_slot (\<lambda>_.
     seq (call_ie E source) (\<lambda>source_items.
     seq (call_ie E summary) (\<lambda>summary_items.
       let source_triples0 = ie_triples source_items;
           summary_triples0 = ie_triples summary_items;
           source_triples = fst (filter_out source_triples0 summary_triples0);
           summary_triples = snd (filter_out source_triples0 summary_triples0)
       in
     seq (print_if E verbose
            [TriplesOut ''source'' source_triples, TriplesOut ''summary'' summary_triples]) (\<lambda>_.
       let common_triples = summary_triples \<inter> source_triples;
           triple_score = (if summary_triples = {} then 0
                           else real (card common_triples) / real (card summary_triples))
       in
     seq (print_if E verbose [ScoreOut ''Triple Score'' triple_score]) (\<lambda>_.
     ret triple_score)))))"

definition calculate_rouge ::
  "env \<Rightarrow> string \<Rightarrow> string \<Rightarrow> bool \<Rightarrow> (real \<times> real \<times> real) run" where
  "calculate_rouge E source summary verbose =
     seq (call_segment E source) (\<lambda>source_lines.
     seq (emit [CallRougeN summary source_lines 1, CallRougeN summary source_lines 2,
                CallRougeL summary source_lines]) (\<lambda>_.
       let rouge_1 = rouge_n_fn E summary source_lines 1;
           rouge_2 = rouge_n_fn E summary source_lines 2;
           rouge_l = rouge_l_fn E summary source_lines
       in
     seq (print_if E verbose [RougeOut rouge_1 rouge_2 rouge_l]) (\<lambda>_.
     ret (rouge_1, rouge_2, rouge_l))))"

text \<open>
  The loop of \<^verbatim>\<open>calculate_bert_score\<close>: \<^verbatim>\<open>score.pop(-1)\<close> raises
  \<^verbatim>\<open>IndexError\<close> on an empty list, and \<^verbatim>\<open>sum(score) / len(score)\<close> raises
  \<^verbatim>\<open>ZeroDivisionError\<close> when nothing is left after the pop.
\<close>

fun filter_scores :: "real list list \<Rightarrow> real list \<Rightarrow> error + real list" where
  "filter_scores [] filtered_scores = Inr filtered_scores"
| "filter_scores (score # scores) filtered_scores =
     (if score = [] then Inl IndexError
      else if butlast score = [] then Inl ZeroDivisionError
      else filter_scores scores
             (filtered_scores @ [sum_list (butlast score) / real (length (butlast score))]))"

text \<open>Python's \<^verbatim>\<open>xs[i]\<close> for a non-negative index.\<close>

definition get_item :: "'a list \<Rightarrow> nat \<Rightarrow> error + 'a" where
  "get_item xs i = (if i < length xs then Inr (xs ! i) else Inl IndexError)"

definition calculate_bert_score ::
  "env \<Rightarrow> string \<Rightarrow> string \<Rightarrow> bool \<Rightarrow> string \<Rightarrow> real list run" where
  "calculate_bert_score E source summary verbose device =
     seq (load_bert_slot device) (\<lambda>_.
     seq (call_segment E source) (\<lambda>source_lines.
       let summary_lines = [summary, ''dummy''] in
     seq (call_bert_score E summary_lines source_lines) (\<lambda>scores.
     seq (lift (filter_scores scores [])) (\<lambda>filtered_scores.
     seq (if verbose then
            seq (lift (get_item filtered_scores 0)) (\<lambda>p.
            seq (lift (get_item filtered_scores 1)) (\<lambda>r.
            seq (lift (get_item filtered_scores 2)) (\<lambda>f.
            emit [Print (BertOut p r f)])))
          else ret ()) (\<lambda>_.
     ret filtered_scores)))))"


section \<open>The entry point\<close>

text \<open>
  \<^verbatim>\<open>sources\<close> and \<^verbatim>\<open>summaries\<close> are each a \<^verbatim>\<open>str\<close> or a list of \<^verbatim>\<open>str\<close>.
  \<^verbatim>\<open>len\<close> of a string counts its characters and iterating it yields them one by one.
\<close>

datatype arg = Str string | Lst "string list"

fun is_Str :: "arg \<Rightarrow> bool" where
  "is_Str (Str t) = True"
| "is_Str (Lst ts) = False"

fun py_len :: "arg \<Rightarrow> nat" where
  "py_len (Str t) = length t"
| "py_len (Lst ts) = length ts"

fun py_iter :: "arg \<Rightarrow> string list" where
  "py_iter (Str t) = map (\<lambda>c. [c]) t"
| "py_iter (Lst ts) = ts"

text \<open>The running sums of the loop.\<close>

record totals =
  fact_scores :: real
  qags_scores :: real
  triple_scores :: real
  rouges :: "real list"
  bert_scores :: "real list"

definition totals0 :: totals where
  "totals0 = \<lparr>fact_scores = 0, qags_scores = 0, triple_scores = 0,
              rouges = [0, 0, 0], bert_scores = [0, 0, 0]\<rparr>"

text \<open>The returned dictionary.\<close>

record bert_metrics =
  precision :: real
  recall :: real
  f1 :: real

record metrics =
  m_fact_score :: real
  m_qa_score :: real
  m_triple_score :: real
  m_rouge :: "real \<times> real \<times> real"
  m_bert_score :: bert_metrics

text \<open>One iteration of the loop over \<^verbatim>\<open>zip(sources, summaries)\<close>.\<close>

definition call_body ::
  "env \<Rightarrow> string \<Rightarrow> string \<Rightarrow> bool \<Rightarrow> string \<Rightarrow> totals \<Rightarrow> totals run" where
  "call_body E source summary verbose device t =
     seq (extract_facts E source summary verbose device) (\<lambda>(source_ents, summary_ents, fact_score).
     seq (extract_qas E source summary (Some source_ents) (Some summary_ents) verbose device)
         (\<lambda>qags_score.
     seq (extract_triples E source summary verbose) (\<lambda>triple_score.
     seq (calculate_rouge E source summary verbose) (\<lambda>(rouge_1, rouge_2, rouge_l).
     seq (calculate_bert_score E source summary verbose device) (\<lambda>bert_score.
     seq (lift (get_item bert_score 0)) (\<lambda>b0.
     seq (lift (get_item bert_score 1)) (\<lambda>b1.
     seq (lift (get_item bert_score 2)) (\<lambda>b2.
     ret \<lparr>fact_scores = fact_scores t + fact_score,
          qags_scores = qags_scores t + qags_score,
          triple_scores = triple_scores t + triple_score,
          rouges = (rouges t)[0 := rouges t ! 0 + rouge_1, 1 := rouges t ! 1 + rouge_2,
                              2 := rouges t ! 2 + rouge_l],
          bert_scores = (bert_scores t)[0 := bert_scores t ! 0 + b0, 1 := bert_scores t ! 1 + b1,
                                        2 := bert_scores t ! 2 + b2]\<rparr>))))))))"

fun call_loop ::
  "env \<Rightarrow> (string \<times> string) list \<Rightarrow> bool \<Rightarrow> string \<Rightarrow> totals \<Rightarrow> totals run" where
  "call_loop E [] verbose device t = ret t"
| "call_loop E ((source, summary) # pairs) verbose device t =
     seq (call_body E source summary verbose device t) (\<lambda>t'. call_loop E pairs verbose device t')"

text \<open>
  The returned dictionary. The first division is \<^verbatim>\<open>fact_scores / num_pairs\<close>, which
  raises \<^verbatim>\<open>ZeroDivisionError\<close> when \<^verbatim>\<open>num_pairs\<close> is 0.
\<close>

definition result :: "nat \<Rightarrow> totals \<Rightarrow> error + metrics" where
  "result num_pairs t =
     (if num_pairs = 0 then Inl ZeroDivisionError
      else Inr \<lparr>m_fact_score = fact_scores t / real num_pairs,
                m_qa_score = qags_scores t / real num_pairs,
                m_triple_score = triple_scores t / real num_pairs,
                m_rouge = (rouges t ! 0 / real num_pairs, rouges t ! 1 / real num_pairs,
                           rouges t ! 2 / real num_pairs),
                m_bert_score = \<lparr>precision = bert_scores t ! 0, recall = bert_scores t ! 1,
                                f1 = bert_scores t ! 2\<rparr>\<rparr>)"

definition call :: "env \<Rightarrow> arg \<Rightarrow> arg \<Rightarrow> bool \<Rightarrow> string \<Rightarrow> metrics run" where
  "call E sources summaries verbose device =
     (let sources' = (case (sources, summaries) of (Str a, Str b) \<Rightarrow> Lst [a] | _ \<Rightarrow> sources);
          summaries' = (case (sources, summaries) of (Str a, Str b) \<Rightarrow> Lst [b] | _ \<Rightarrow> summaries)
      in if py_len sources' \<noteq> py_len summaries' then throw ValueError
         else
           seq (call_loop E (zip (py_iter sources') (py_iter summaries')) verbose device totals0)
               (\<lambda>t. lift (result (py_len sources') t)))"


section \<open>Observing a run\<close>

text \<open>The outcome of a run with the prints removed from its trace.\<close>

definition quiet ::
  "(error + 'a) \<times> factsumm \<times> event list \<Rightarrow> (error + 'a) \<times> factsumm \<times> event list" where
  "quiet outcome =
     (fst outcome, fst (snd outcome), filter (\<lambda>e. \<not> is_print e) (snd (snd outcome)))"

section \<open>A small environment for running the model\<close>

text \<open>
  One sentence per text; two mentions per sentence; a relation extractor that names the
  sentence as the head of each candidate; an open extractor that finds one triple in
  every non-empty text; a similarity scorer that returns one value per candidate line, 0 for the
  placeholder line; a question answerer that predicts its whole context; and a print
  that raises on the lines where an entity word, a question or a prediction is the
  closing tag \<^verbatim>\<open>[/x]\<close>.
\<close>

definition demo_env :: env where
  "demo_env =
     \<lparr>cfg_ner_model = ''ner'', cfg_rel_model = ''rel'', cfg_qg_model = ''qg'',
      cfg_qa_model = ''qa'', cfg_bert_score_model = ''bert'',
      str_strip = (\<lambda>t. t),
      segment_fn = (\<lambda>t. [t]),
      ner_fn = (\<lambda>m d lines. map (\<lambda>l.
                 [\<lparr>ent_word = ''A'', ent_label = ''PER'', ent_start = 0, ent_end = 1\<rparr>,
                  \<lparr>ent_word = ''B'', ent_label = ''LOC'', ent_start = 2, ent_end = 3\<rparr>]) lines),
      rel_fn = (\<lambda>m d p. map (\<lambda>c. (perm_text c, ''rel'', ''B'')) p),
      qg_fn = (\<lambda>m d lines ents. map (\<lambda>l. \<lparr>qi_question = l, qi_answer = ''A''\<rparr>) lines),
      qa_fn = (\<lambda>m d context qas.
                 map (\<lambda>q. \<lparr>ans_question = qi_question q, ans_prediction = context\<rparr>) qas),
      ie_fn = (\<lambda>t. if t = [] then []
                     else [\<lparr>ie_subject = ''S'', ie_relation = ''is'', ie_object = t\<rparr>]),
      bert_fn = (\<lambda>m d cands refs.
                 [map (\<lambda>c. if c = ''dummy'' then 0 else 1 / 2) cands,
                  map (\<lambda>c. if c = ''dummy'' then 0 else 1 / 4) cands,
                  map (\<lambda>c. if c = ''dummy'' then 0 else 1 / 8) cands]),
      rouge_n_fn = (\<lambda>summary lines n. 1 / (1 + real n)),
      rouge_l_fn = (\<lambda>summary lines. 1 / 4),
      qags_score_fn = (\<lambda>a b. if map ans_prediction a = map ans_prediction b then 1 else 0),
      markup_error = (\<lambda>x. case x of
                         EntityLine i pairs \<Rightarrow> ''[/x]'' \<in> set (map fst pairs)
                       | QaLine q p \<Rightarrow> q = ''[/x]'' \<or> p = ''[/x]''
                       | _ \<Rightarrow> False)\<rparr>"

definition demo_init :: factsumm where
  "demo_init = init demo_env None None None None None"

text \<open>
  The same environment with a tagger that tags each whole sentence as one mention, so
  that the printed entity words come from the input text.
\<close>

definition echo_env :: env where
  "echo_env =
     demo_env\<lparr>ner_fn := (\<lambda>m d lines. map (\<lambda>l.
                 [\<lparr>ent_word = l, ent_label = ''MISC'', ent_start = 0,
                   ent_end = int (length l)\<rparr>]) lines)\<rparr>"

text \<open>The mentions the small environment's tagger finds in a one-sentence text.\<close>

abbreviation demo_ents :: "entity list list" where
  "demo_ents \<equiv> [[\<lparr>ent_word = ''A'', ent_label = ''PER'', ent_start = 0, ent_end = 1\<rparr>,
                 \<lparr>ent_word = ''B'', ent_label = ''LOC'', ent_start = 2, ent_end = 3\<rparr>]]"


section \<open>Permutation builder: the candidates of a sentence\<close>

lemma length_filter_neq_upt:
  "length (filter (\<lambda>j. j \<noteq> i) [0..<n]) = (if i < n then n - 1 else n)"
  by (induction n) auto

lemma length_permutations2: "length (permutations2 pool) = length pool * (length pool - 1)"
proof -
  let ?n = "length pool"
  have "(\<Sum>i\<leftarrow>[0..<?n]. length (filter (\<lambda>j. j \<noteq> i) [0..<?n])) = (\<Sum>i\<leftarrow>[0..<?n]. ?n - 1)"
    by (rule arg_cong [where f = sum_list], rule map_cong) (simp_all add: length_filter_neq_upt)
  also have "\<dots> = ?n * (?n - 1)"
    by (simp add: sum_list_triv)
  finally show ?thesis
    by (simp add: permutations2_def length_concat comp_def)
qed

lemma set_permutations2:
  "set (permutations2 pool) =
     {(pool ! i, pool ! j) | i j. i < length pool \<and> j < length pool \<and> i \<noteq> j}"
  by (fastforce simp: permutations2_def)

lemma nth_build_perm:
  assumes "n < length lines" and "n < length total_entities"
  shows "build_perm lines total_entities ! n =
     map (\<lambda>comb. \<lparr>perm_text = lines ! n, perm_spans = [span (fst comb), span (snd comb)]\<rparr>)
         (permutations2 (total_entities ! n))"
  using assms by (simp add: build_perm_def)

text \<open>
  C4. The builder returns one candidate list per zipped (sentence, mention list) pair.
  For the sentence at position \<open>n\<close> with \<open>k\<close> mentions the list has exactly
  \<open>k * (k - 1)\<close> candidates; every candidate carries the whole sentence as its text and
  the spans of two mentions at different positions of that same sentence's mention list;
  for every two different positions the candidate in that order is emitted (so both
  orders of a pair are); and with 0 or 1 mentions the list is empty.
\<close>

theorem build_perm_candidates:
  assumes "n < length lines" and "n < length total_entities"
  shows "length (build_perm lines total_entities) = min (length lines) (length total_entities)
     \<and> length (build_perm lines total_entities ! n)
         = length (total_entities ! n) * (length (total_entities ! n) - 1)
     \<and> (\<forall>c \<in> set (build_perm lines total_entities ! n).
           perm_text c = lines ! n \<and>
           (\<exists>i j. i < length (total_entities ! n) \<and> j < length (total_entities ! n) \<and> i \<noteq> j \<and>
                  perm_spans c = [span (total_entities ! n ! i), span (total_entities ! n ! j)]))
     \<and> (\<forall>i j. i < length (total_entities ! n) \<and> j < length (total_entities ! n) \<and> i \<noteq> j \<longrightarrow>
           \<lparr>perm_text = lines ! n,
            perm_spans = [span (total_entities ! n ! i), span (total_entities ! n ! j)]\<rparr>
             \<in> set (build_perm lines total_entities ! n))
     \<and> (length (total_entities ! n) \<le> 1 \<longrightarrow> build_perm lines total_entities ! n = [])"
proof -
  note nb = nth_build_perm [OF assms]
  have a: "length (build_perm lines total_entities) = min (length lines) (length total_entities)"
    by (simp add: build_perm_def)
  have b: "length (build_perm lines total_entities ! n)
           = length (total_entities ! n) * (length (total_entities ! n) - 1)"
    by (simp add: nb length_permutations2)
  have c: "\<forall>c \<in> set (build_perm lines total_entities ! n).
           perm_text c = lines ! n \<and>
           (\<exists>i j. i < length (total_entities ! n) \<and> j < length (total_entities ! n) \<and> i \<noteq> j \<and>
                  perm_spans c = [span (total_entities ! n ! i), span (total_entities ! n ! j)])"
    by (auto simp: nb set_permutations2)
  have d: "\<forall>i j. i < length (total_entities ! n) \<and> j < length (total_entities ! n) \<and> i \<noteq> j \<longrightarrow>
           \<lparr>perm_text = lines ! n,
            perm_spans = [span (total_entities ! n ! i), span (total_entities ! n ! j)]\<rparr>
             \<in> set (build_perm lines total_entities ! n)"
    by (force simp: nb set_permutations2)
  have "length (build_perm lines total_entities ! n) = 0" if "length (total_entities ! n) \<le> 1"
    using that by (simp add: nb length_permutations2)
  then have e: "length (total_entities ! n) \<le> 1 \<longrightarrow> build_perm lines total_entities ! n = []"
    by simp
  from a b c d e show ?thesis by blast
qed

theorem build_perm_candidates_witness:
  "(0::nat) < length [''ab'', ''c'']
   \<and> (0::nat) < length [[\<lparr>ent_word = ''A'', ent_label = ''PER'', ent_start = 0, ent_end = 1\<rparr>,
                         \<lparr>ent_word = ''B'', ent_label = ''LOC'', ent_start = 2, ent_end = 3\<rparr>,
                         \<lparr>ent_word = ''C'', ent_label = ''ORG'', ent_start = 4, ent_end = 5\<rparr>], []]
   \<and> length (build_perm [''ab'', ''c'']
               [[\<lparr>ent_word = ''A'', ent_label = ''PER'', ent_start = 0, ent_end = 1\<rparr>,
                 \<lparr>ent_word = ''B'', ent_label = ''LOC'', ent_start = 2, ent_end = 3\<rparr>,
                 \<lparr>ent_word = ''C'', ent_label = ''ORG'', ent_start = 4, ent_end = 5\<rparr>], []] ! 0) = 6"
proof -
  have h1: "(0::nat) < length [''ab'', ''c'']" by simp
  have h2: "(0::nat) < length [[\<lparr>ent_word = ''A'', ent_label = ''PER'', ent_start = 0, ent_end = 1\<rparr>,
                         \<lparr>ent_word = ''B'', ent_label = ''LOC'', ent_start = 2, ent_end = 3\<rparr>,
                         \<lparr>ent_word = ''C'', ent_label = ''ORG'', ent_start = 4, ent_end = 5\<rparr>], []]"
    by simp
  show ?thesis using h1 h2 build_perm_candidates [OF h1 h2] by simp
qed

section \<open>Comparability filter: symmetry\<close>

text \<open>
  C5. Filtering \<open>(A, B)\<close> gives the pair that filtering \<open>(B, A)\<close> gives, with its two
  components exchanged.
\<close>

theorem filter_out_symmetric: "filter_out A B = prod.swap (filter_out B A)"
  by (simp add: filter_out_def)

section \<open>The entry point: argument check and the empty batch\<close>

text \<open>
  C3. When the two arguments are not both single strings and their lengths differ, the
  entry point raises \<^verbatim>\<open>ValueError\<close>; the fields of the instance are unchanged and the
  trace is empty: nothing was loaded, no adapter was invoked and no pair was processed.
\<close>

theorem call_length_mismatch:
  assumes "\<not> (is_Str sources \<and> is_Str summaries)"
    and "py_len sources \<noteq> py_len summaries"
  shows "call E sources summaries verbose device s = (Inl ValueError, s, [])"
  using assms by (cases sources; cases summaries) (simp_all add: call_def throw_def)

theorem call_length_mismatch_witness:
  "\<not> (is_Str (Lst [''a'', ''b'']) \<and> is_Str (Lst [''c'']))
   \<and> py_len (Lst [''a'', ''b'']) \<noteq> py_len (Lst [''c''])
   \<and> call demo_env (Lst [''a'', ''b'']) (Lst [''c'']) True ''cpu'' demo_init
       = (Inl ValueError, demo_init, [])"
proof -
  have h1: "\<not> (is_Str (Lst [''a'', ''b'']) \<and> is_Str (Lst [''c'']))" by simp
  have h2: "py_len (Lst [''a'', ''b'']) \<noteq> py_len (Lst [''c''])" by simp
  show ?thesis using h1 h2 call_length_mismatch [OF h1 h2] by simp
qed

text \<open>
  C10. For two empty lists the length check passes, the loop body never runs (the
  fields are unchanged and the trace is empty), and the first average raises
  \<^verbatim>\<open>ZeroDivisionError\<close>: no metric record is returned.
\<close>

theorem call_empty_batch:
  "call E (Lst []) (Lst []) verbose device s = (Inl ZeroDivisionError, s, [])"
  by (simp add: call_def seq_def ret_def lift_def result_def)

section \<open>Sequencing and evaluation lemmas\<close>

lemma seq_Inr:
  "seq m f s = (Inr y, s2, ev2) \<longleftrightarrow>
     (\<exists>x s1 ev1 ev'. m s = (Inr x, s1, ev1) \<and> f x s1 = (Inr y, s2, ev') \<and> ev2 = ev1 @ ev')"
  by (auto simp: seq_def split: prod.splits sum.splits)

lemma seq_ret [simp]: "seq (ret x) f s = f x s"
  by (simp add: seq_def ret_def split: prod.splits)

lemma seq_throw [simp]: "seq (throw e) f s = (Inl e, s, [])"
  by (simp add: seq_def throw_def)

lemmas run_defs = extract_facts_def extract_qas_def extract_triples_def calculate_rouge_def
  calculate_bert_score_def seq_def ret_def throw_def emit_def lift_def print_if_def
  call_segment_def call_ner_def call_rel_def call_qg_def call_qa_def call_bert_score_def call_ie_def
  load_ner_rel_def load_qg_qa_def load_ner_only_def load_ie_slot_def load_bert_slot_def
  get_facts_def segment_def build_perm_def permutations2_def span_def filter_out_def
  ie_triples_def get_item_def print_entities_def print_qas_def
  demo_env_def demo_init_def init_def

lemmas call_defs = call_def call_body_def result_def totals0_def

section \<open>Fact score and open-triple score\<close>

text \<open>The loop over the candidates in closed form.\<close>

lemma rel_loop_closed:
  "rel_loop E ps acc s =
     (case rel s of
        Loaded m d \<Rightarrow> (Inr (acc @ concat (map (rel_fn E m d) ps)), s, map (CallRel m d) ps)
      | Name n \<Rightarrow> (if ps = [] then (Inr acc, s, []) else (Inl TypeError, s, [])))"
  by (induction ps arbitrary: acc)
     (auto simp: ret_def seq_def call_rel_def throw_def split: slot.splits)

lemma get_facts_closed:
  "get_facts E lines ents s =
     (case rel s of
        Loaded m d \<Rightarrow> (Inr (set (concat (map (rel_fn E m d) (build_perm lines ents)))), s,
                        map (CallRel m d) (build_perm lines ents))
      | Name n \<Rightarrow> (if build_perm lines ents = [] then (Inr {}, s, []) else (Inl TypeError, s, [])))"
  by (auto simp: get_facts_def seq_def rel_loop_closed ret_def split: slot.splits)

lemma get_facts_state: "get_facts E lines ents s = (r, s', ev) \<Longrightarrow> s' = s"
  by (auto simp: get_facts_closed split: slot.splits if_splits)

lemma get_facts_finite: "get_facts E lines ents s = (Inr F, s', ev) \<Longrightarrow> finite F"
  by (auto simp: get_facts_closed split: slot.splits if_splits)

lemma print_call_state: "fst (snd (print_call E x s)) = s"
  by (cases x) simp_all

lemma print_all_state: "fst (snd (print_all E outs s)) = s"
proof (induction outs arbitrary: s)
  case Nil
  show ?case by (simp add: ret_def)
next
  case (Cons x outs)
  obtain r s1 ev1 where c: "print_call E x s = (r, s1, ev1)" by (cases "print_call E x s")
  with print_call_state [of E x s] have s1: "s1 = s" by simp
  obtain r2 s2 ev2 where a: "print_all E outs s = (r2, s2, ev2)" by (cases "print_all E outs s")
  with Cons.IH [of s] have "s2 = s" by simp
  with c s1 a show ?case by (cases r) (simp_all add: seq_def)
qed

lemma print_if_Inr: "print_if E v outs s = (Inr x, s', ev) \<Longrightarrow> s' = s"
  using print_all_state [of E outs s] by (auto simp: print_if_def ret_def split: if_splits)

text \<open>The lines that report sets and scores always print.\<close>

lemma print_if_scores [simp]:
  "print_if E verbose [ScoreOut l x] s = (Inr (), s, if verbose then [Print (ScoreOut l x)] else [])"
  "print_if E verbose [RougeOut a b c] s
     = (Inr (), s, if verbose then [Print (RougeOut a b c)] else [])"
  "print_if E verbose [TriplesOut m A, TriplesOut n B] s
     = (Inr (), s, if verbose then [Print (TriplesOut m A), Print (TriplesOut n B)] else [])"
  by (simp_all add: print_if_def seq_def ret_def)

text \<open>
  A run of \<^verbatim>\<open>extract_facts\<close> that returns has computed its score from the two triple
  sets that \<^verbatim>\<open>get_facts\<close> yields, with the instance as the run leaves it, for the
  segmented source and summary and the returned entities.
\<close>

lemma extract_facts_Inr:
  assumes "extract_facts E source summary verbose device s = (Inr (se, sue, score), s', ev)"
  shows "\<exists>F1 F2 ev1 ev2.
     get_facts E (segment E source) se s' = (Inr F1, s', ev1) \<and>
     get_facts E (segment E summary) sue s' = (Inr F2, s', ev2) \<and>
     score = (if snd (filter_out F1 F2) = {} then 0
              else real (card (snd (filter_out F1 F2) \<inter> fst (filter_out F1 F2)))
                   / real (card (snd (filter_out F1 F2))))"
proof -
  let ?score = "\<lambda>F1 F2. (if snd (filter_out F1 F2) = {} then 0
              else real (card (snd (filter_out F1 F2) \<inter> fst (filter_out F1 F2)))
                   / real (card (snd (filter_out F1 F2))))"
  from assms obtain s3 s4 e4 s5 e5 F1 s6 e6 F2 s7 e7 s8 e8 s9 e9 where
    "call_ner E (segment E source) s3 = (Inr se, s4, e4)"
    "call_ner E (segment E summary) s4 = (Inr sue, s5, e5)"
    and g1: "get_facts E (segment E source) se s5 = (Inr F1, s6, e6)"
    and g2: "get_facts E (segment E summary) sue s6 = (Inr F2, s7, e7)"
    and p1: "print_if E verbose
            (print_entities ''source'' se @ print_entities ''summary'' sue
             @ [FactsOut ''source'' (fst (filter_out F1 F2)),
                FactsOut ''summary'' (snd (filter_out F1 F2)),
                FactsOut ''common'' (snd (filter_out F1 F2) \<inter> fst (filter_out F1 F2)),
                FactsOut ''diff'' (snd (filter_out F1 F2) - fst (filter_out F1 F2))]) s7
              = (Inr (), s8, e8)"
    and p2: "print_if E verbose [ScoreOut ''Fact Score'' (?score F1 F2)] s8 = (Inr (), s9, e9)"
    and fin: "s' = s9" "score = ?score F1 F2"
    unfolding extract_facts_def
    by (simp add: seq_Inr Let_def call_segment_def ret_def del: print_if_scores) blast
  from g1 have "s6 = s5" by (rule get_facts_state)
  moreover from g2 have "s7 = s6" by (rule get_facts_state)
  moreover from p1 have "s8 = s7" by (rule print_if_Inr)
  moreover from p2 have "s9 = s8" by (rule print_if_Inr)
  ultimately have "s5 = s'" "s6 = s'" "s7 = s'" using fin by simp_all
  with g1 g2 fin show ?thesis by blast
qed

lemma extract_triples_closed:
  "fst (extract_triples E source summary verbose s) =
     Inr (if snd (filter_out (ie_triples (ie_fn E source)) (ie_triples (ie_fn E summary))) = {} then 0
          else real (card (snd (filter_out (ie_triples (ie_fn E source)) (ie_triples (ie_fn E summary)))
                           \<inter> fst (filter_out (ie_triples (ie_fn E source)) (ie_triples (ie_fn E summary)))))
               / real (card (snd (filter_out (ie_triples (ie_fn E source)) (ie_triples (ie_fn E summary))))))"
  by (cases "ie s"; cases verbose)
     (simp_all add: extract_triples_def seq_def load_ie_slot_def call_ie_def ret_def Let_def)

lemma finite_filter_out_snd: "finite B \<Longrightarrow> finite (snd (filter_out A B))"
  by (simp add: filter_out_def)

lemma covered_ratio:
  assumes "finite S" and "S \<noteq> {}" and "S \<subseteq> T"
  shows "real (card (S \<inter> T)) / real (card S) = 1"
proof -
  from assms(3) have "S \<inter> T = S" by blast
  moreover from assms(1,2) have "card S \<noteq> 0" by simp
  ultimately show ?thesis by simp
qed

text \<open>
  C2. If \<^verbatim>\<open>extract_facts\<close> returns and the summary-side set left by the filter is
  empty, the fact score is exactly 0, whatever the source-side set is; here the two
  triple sets are what \<^verbatim>\<open>get_facts\<close> yields, on the instance as the run leaves it, for
  the segmented texts and the returned entities. Likewise \<^verbatim>\<open>extract_triples\<close>
  returns exactly 0 when the filtered summary-side set of open triples is empty.
\<close>

theorem empty_summary_side_scores_zero:
  "(extract_facts E source summary verbose device s
        = (Inr (source_ents, summary_ents, fact_score), s', ev)
      \<and> get_facts E (segment E source) source_ents s' = (Inr source_facts, s1, ev1)
      \<and> get_facts E (segment E summary) summary_ents s' = (Inr summary_facts, s2, ev2)
      \<and> snd (filter_out source_facts summary_facts) = {}
    \<longrightarrow> fact_score = 0)
   \<and> (snd (filter_out (ie_triples (ie_fn E source)) (ie_triples (ie_fn E summary))) = {}
    \<longrightarrow> fst (extract_triples E source summary verbose s) = Inr 0)"
proof (intro conjI impI)
  assume a: "extract_facts E source summary verbose device s
        = (Inr (source_ents, summary_ents, fact_score), s', ev)
      \<and> get_facts E (segment E source) source_ents s' = (Inr source_facts, s1, ev1)
      \<and> get_facts E (segment E summary) summary_ents s' = (Inr summary_facts, s2, ev2)
      \<and> snd (filter_out source_facts summary_facts) = {}"
  then obtain F1 F2 e1 e2 where
    "get_facts E (segment E source) source_ents s' = (Inr F1, s', e1)"
    "get_facts E (segment E summary) summary_ents s' = (Inr F2, s', e2)"
    "fact_score = (if snd (filter_out F1 F2) = {} then 0
              else real (card (snd (filter_out F1 F2) \<inter> fst (filter_out F1 F2)))
                   / real (card (snd (filter_out F1 F2))))"
    using extract_facts_Inr by blast
  with a show "fact_score = 0" by simp
next
  assume "snd (filter_out (ie_triples (ie_fn E source)) (ie_triples (ie_fn E summary))) = {}"
  then show "fst (extract_triples E source summary verbose s) = Inr 0"
    by (simp add: extract_triples_closed)
qed

theorem empty_summary_side_scores_zero_witness:
  "fst (extract_facts demo_env ''s'' [] False ''cpu'' demo_init) = Inr (demo_ents, demo_ents, 0)
   \<and> fst (get_facts demo_env (segment demo_env ''s'') demo_ents
            (fst (snd (extract_facts demo_env ''s'' [] False ''cpu'' demo_init))))
       = Inr {(''s'', ''rel'', ''B'')}
   \<and> fst (get_facts demo_env (segment demo_env []) demo_ents
            (fst (snd (extract_facts demo_env ''s'' [] False ''cpu'' demo_init))))
       = Inr {([], ''rel'', ''B'')}
   \<and> snd (filter_out {(''s'', ''rel'', ''B'')} {([], ''rel'', ''B'')}) = {}
   \<and> snd (filter_out (ie_triples (ie_fn demo_env ''s'')) (ie_triples (ie_fn demo_env []))) = {}
   \<and> fst (extract_triples demo_env ''s'' [] False demo_init) = Inr 0"
proof -
  let ?run = "extract_facts demo_env ''s'' [] False ''cpu'' demo_init"
  let ?g1 = "get_facts demo_env (segment demo_env ''s'') demo_ents (fst (snd ?run))"
  let ?g2 = "get_facts demo_env (segment demo_env []) demo_ents (fst (snd ?run))"
  have r: "fst ?run = Inr (demo_ents, demo_ents, 0)"
    by (simp add: run_defs Let_def)
  have s: "fst (snd ?run) = demo_init\<lparr>ner := Loaded ''ner'' ''cpu'', rel := Loaded ''rel'' ''cpu''\<rparr>"
    by (simp add: run_defs Let_def)
  have g1: "fst ?g1 = Inr {(''s'', ''rel'', ''B'')}"
    unfolding s by (simp add: run_defs Let_def)
  have g2: "fst ?g2 = Inr {([], ''rel'', ''B'')}"
    unfolding s by (simp add: run_defs Let_def)
  have f: "snd (filter_out {(''s'', ''rel'', ''B'')} {([], ''rel'', ''B'')}) = {}"
    by (simp add: filter_out_def)
  have t: "snd (filter_out (ie_triples (ie_fn demo_env ''s'')) (ie_triples (ie_fn demo_env []))) = {}"
    by (simp add: filter_out_def ie_triples_def demo_env_def)
  have r': "?run = (Inr (demo_ents, demo_ents, 0), fst (snd ?run), snd (snd ?run))"
    using r by (metis prod.collapse)
  have g1': "?g1 = (Inr {(''s'', ''rel'', ''B'')}, fst (snd ?g1), snd (snd ?g1))"
    using g1 by (metis prod.collapse)
  have g2': "?g2 = (Inr {([], ''rel'', ''B'')}, fst (snd ?g2), snd (snd ?g2))"
    using g2 by (metis prod.collapse)
  from empty_summary_side_scores_zero
         [where E = demo_env and source = "''s''" and summary = "[]" and verbose = False
            and device = "''cpu''" and s = demo_init and source_ents = demo_ents
            and summary_ents = demo_ents and fact_score = 0
            and s' = "fst (snd ?run)" and ev = "snd (snd ?run)"
            and source_facts = "{(''s'', ''rel'', ''B'')}" and ?s1.0 = "fst (snd ?g1)"
            and ?ev1.0 = "snd (snd ?g1)"
            and summary_facts = "{([], ''rel'', ''B'')}" and ?s2.0 = "fst (snd ?g2)"
            and ?ev2.0 = "snd (snd ?g2)"]
       r' g1' g2' f t
  have "fst (extract_triples demo_env ''s'' [] False demo_init) = Inr 0"
    by blast
  with r g1 g2 f t show ?thesis by simp
qed

text \<open>
  C6, as stated, fails when the filtered summary-side set is empty: the empty set is a
  subset of every set, and the guard \<^verbatim>\<open>if not summary_facts\<close> returns 0. In the
  small environment the summary \<^verbatim>\<open>""\<close> has no comparable fact and no open triple.
\<close>

theorem subset_score_counterexample:
  "fst (get_facts demo_env (segment demo_env ''s'') demo_ents
          (fst (snd (extract_facts demo_env ''s'' [] False ''cpu'' demo_init))))
       = Inr {(''s'', ''rel'', ''B'')}
   \<and> fst (get_facts demo_env (segment demo_env []) demo_ents
            (fst (snd (extract_facts demo_env ''s'' [] False ''cpu'' demo_init))))
       = Inr {([], ''rel'', ''B'')}
   \<and> snd (filter_out {(''s'', ''rel'', ''B'')} {([], ''rel'', ''B'')})
       \<subseteq> fst (filter_out {(''s'', ''rel'', ''B'')} {([], ''rel'', ''B'')})
   \<and> fst (extract_facts demo_env ''s'' [] False ''cpu'' demo_init) = Inr (demo_ents, demo_ents, 0)
   \<and> (0::real) \<noteq> 1
   \<and> snd (filter_out (ie_triples (ie_fn demo_env ''s'')) (ie_triples (ie_fn demo_env [])))
       \<subseteq> fst (filter_out (ie_triples (ie_fn demo_env ''s'')) (ie_triples (ie_fn demo_env [])))
   \<and> fst (extract_triples demo_env ''s'' [] False demo_init) \<noteq> Inr 1"
proof -
  let ?run = "extract_facts demo_env ''s'' [] False ''cpu'' demo_init"
  have s: "fst (snd ?run) = demo_init\<lparr>ner := Loaded ''ner'' ''cpu'', rel := Loaded ''rel'' ''cpu''\<rparr>"
    by (simp add: run_defs Let_def)
  have "fst (get_facts demo_env (segment demo_env ''s'') demo_ents (fst (snd ?run)))
          = Inr {(''s'', ''rel'', ''B'')}"
    unfolding s by (simp add: run_defs Let_def)
  moreover have "fst (get_facts demo_env (segment demo_env []) demo_ents (fst (snd ?run)))
          = Inr {([], ''rel'', ''B'')}"
    unfolding s by (simp add: run_defs Let_def)
  moreover have "snd (filter_out {(''s'', ''rel'', ''B'')} {([], ''rel'', ''B'')})
       \<subseteq> fst (filter_out {(''s'', ''rel'', ''B'')} {([], ''rel'', ''B'')})"
    by (auto simp: filter_out_def)
  moreover have "fst ?run = Inr (demo_ents, demo_ents, 0)"
    by (simp add: run_defs Let_def)
  moreover have "snd (filter_out (ie_triples (ie_fn demo_env ''s'')) (ie_triples (ie_fn demo_env [])))
       \<subseteq> fst (filter_out (ie_triples (ie_fn demo_env ''s'')) (ie_triples (ie_fn demo_env [])))"
    by (simp add: filter_out_def ie_triples_def demo_env_def)
  moreover have "fst (extract_triples demo_env ''s'' [] False demo_init) \<noteq> Inr 1"
    by (simp add: run_defs Let_def)
  ultimately show ?thesis by simp
qed

text \<open>
  C6, amended. If the summary-side set left by the filter is not empty and is a subset
  of the filtered source-side set, the score is exactly 1: for \<^verbatim>\<open>extract_facts\<close> with
  the triple sets of \<^verbatim>\<open>get_facts\<close> as in C2, and for \<^verbatim>\<open>extract_triples\<close> with the
  open triples of the two texts.
\<close>

theorem covered_summary_side_scores_one:
  "(extract_facts E source summary verbose device s
        = (Inr (source_ents, summary_ents, fact_score), s', ev)
      \<and> get_facts E (segment E source) source_ents s' = (Inr source_facts, s1, ev1)
      \<and> get_facts E (segment E summary) summary_ents s' = (Inr summary_facts, s2, ev2)
      \<and> snd (filter_out source_facts summary_facts) \<noteq> {}
      \<and> snd (filter_out source_facts summary_facts) \<subseteq> fst (filter_out source_facts summary_facts)
    \<longrightarrow> fact_score = 1)
   \<and> (snd (filter_out (ie_triples (ie_fn E source)) (ie_triples (ie_fn E summary))) \<noteq> {}
      \<and> snd (filter_out (ie_triples (ie_fn E source)) (ie_triples (ie_fn E summary)))
          \<subseteq> fst (filter_out (ie_triples (ie_fn E source)) (ie_triples (ie_fn E summary)))
    \<longrightarrow> fst (extract_triples E source summary verbose s) = Inr 1)"
proof (intro conjI impI)
  assume a: "extract_facts E source summary verbose device s
        = (Inr (source_ents, summary_ents, fact_score), s', ev)
      \<and> get_facts E (segment E source) source_ents s' = (Inr source_facts, s1, ev1)
      \<and> get_facts E (segment E summary) summary_ents s' = (Inr summary_facts, s2, ev2)
      \<and> snd (filter_out source_facts summary_facts) \<noteq> {}
      \<and> snd (filter_out source_facts summary_facts) \<subseteq> fst (filter_out source_facts summary_facts)"
  then obtain F1 F2 e1 e2 where
    "get_facts E (segment E source) source_ents s' = (Inr F1, s', e1)"
    "get_facts E (segment E summary) summary_ents s' = (Inr F2, s', e2)"
    "fact_score = (if snd (filter_out F1 F2) = {} then 0
              else real (card (snd (filter_out F1 F2) \<inter> fst (filter_out F1 F2)))
                   / real (card (snd (filter_out F1 F2))))"
    using extract_facts_Inr by blast
  with a have sc: "fact_score = real (card (snd (filter_out source_facts summary_facts)
                                    \<inter> fst (filter_out source_facts summary_facts)))
                   / real (card (snd (filter_out source_facts summary_facts)))"
    by simp
  from a have "finite summary_facts" using get_facts_finite by blast
  then have "finite (snd (filter_out source_facts summary_facts))"
    by (rule finite_filter_out_snd)
  with a sc show "fact_score = 1" by (simp add: covered_ratio)
next
  let ?A = "ie_triples (ie_fn E source)" and ?B = "ie_triples (ie_fn E summary)"
  assume b: "snd (filter_out ?A ?B) \<noteq> {} \<and> snd (filter_out ?A ?B) \<subseteq> fst (filter_out ?A ?B)"
  have "finite ?B" by (simp add: ie_triples_def)
  then have "finite (snd (filter_out ?A ?B))" by (rule finite_filter_out_snd)
  with b show "fst (extract_triples E source summary verbose s) = Inr 1"
    by (simp add: extract_triples_closed covered_ratio)
qed

theorem covered_summary_side_scores_one_witness:
  "fst (extract_facts demo_env ''s'' ''s'' False ''cpu'' demo_init) = Inr (demo_ents, demo_ents, 1)
   \<and> fst (get_facts demo_env (segment demo_env ''s'') demo_ents
            (fst (snd (extract_facts demo_env ''s'' ''s'' False ''cpu'' demo_init))))
       = Inr {(''s'', ''rel'', ''B'')}
   \<and> snd (filter_out {(''s'', ''rel'', ''B'')} {(''s'', ''rel'', ''B'')}) \<noteq> {}
   \<and> snd (filter_out {(''s'', ''rel'', ''B'')} {(''s'', ''rel'', ''B'')})
       \<subseteq> fst (filter_out {(''s'', ''rel'', ''B'')} {(''s'', ''rel'', ''B'')})
   \<and> snd (filter_out (ie_triples (ie_fn demo_env ''s'')) (ie_triples (ie_fn demo_env ''s''))) \<noteq> {}
   \<and> snd (filter_out (ie_triples (ie_fn demo_env ''s'')) (ie_triples (ie_fn demo_env ''s'')))
       \<subseteq> fst (filter_out (ie_triples (ie_fn demo_env ''s'')) (ie_triples (ie_fn demo_env ''s'')))
   \<and> fst (extract_triples demo_env ''s'' ''s'' False demo_init) = Inr 1"
proof -
  let ?run = "extract_facts demo_env ''s'' ''s'' False ''cpu'' demo_init"
  let ?g = "get_facts demo_env (segment demo_env ''s'') demo_ents (fst (snd ?run))"
  let ?F = "{(''s'', ''rel'', ''B'')} :: triple set"
  let ?T = "ie_triples (ie_fn demo_env ''s'')"
  have r: "fst ?run = Inr (demo_ents, demo_ents, 1)"
    by (simp add: run_defs Let_def)
  have s: "fst (snd ?run) = demo_init\<lparr>ner := Loaded ''ner'' ''cpu'', rel := Loaded ''rel'' ''cpu''\<rparr>"
    by (simp add: run_defs Let_def)
  have g: "fst ?g = Inr ?F"
    unfolding s by (simp add: run_defs Let_def)
  have f: "snd (filter_out ?F ?F) \<noteq> {} \<and> snd (filter_out ?F ?F) \<subseteq> fst (filter_out ?F ?F)"
    by (simp add: filter_out_def)
  have t: "snd (filter_out ?T ?T) \<noteq> {} \<and> snd (filter_out ?T ?T) \<subseteq> fst (filter_out ?T ?T)"
    by (simp add: filter_out_def ie_triples_def demo_env_def)
  have r': "?run = (Inr (demo_ents, demo_ents, 1), fst (snd ?run), snd (snd ?run))"
    using r by (metis prod.collapse)
  have g': "?g = (Inr ?F, fst (snd ?g), snd (snd ?g))"
    using g by (metis prod.collapse)
  from covered_summary_side_scores_one
         [where E = demo_env and source = "''s''" and summary = "''s''" and verbose = False
            and device = "''cpu''" and s = demo_init and source_ents = demo_ents
            and summary_ents = demo_ents and fact_score = 1
            and s' = "fst (snd ?run)" and ev = "snd (snd ?run)"
            and source_facts = ?F and ?s1.0 = "fst (snd ?g)" and ?ev1.0 = "snd (snd ?g)"
            and summary_facts = ?F and ?s2.0 = "fst (snd ?g)" and ?ev2.0 = "snd (snd ?g)"]
       r' g' f t
  have "fst (extract_triples demo_env ''s'' ''s'' False demo_init) = Inr 1"
    by blast
  with r g f t show ?thesis by simp
qed

section \<open>Embedding similarity: padding and dropping\<close>

lemma filter_scores_ok:
  "\<forall>score \<in> set scores. 2 \<le> length score \<Longrightarrow>
   filter_scores scores acc =
     Inr (acc @ map (\<lambda>score. sum_list (butlast score) / real (length (butlast score))) scores)"
proof (induction scores arbitrary: acc)
  case Nil
  then show ?case by simp
next
  case (Cons score scores)
  from Cons.prems have "2 \<le> length score" by simp
  then have "score \<noteq> []" "butlast score \<noteq> []"
    by (auto simp: butlast_conv_take)
  with Cons show ?case by simp
qed

text \<open>
  C7. Every run of \<^verbatim>\<open>calculate_bert_score\<close> leaves the similarity slot loaded, and
  apart from loads and prints its trace is the segmentation of the source followed by
  one invocation of the similarity adapter, whose candidate list is the summary followed
  by the placeholder \<^verbatim>\<open>"dummy"\<close>. When every returned score list has at least two
  elements (and, with verbose set, there are at least three lists for the print), the
  result is, for each returned list, the mean of the list without its last element.
\<close>

theorem bert_score_pads_and_drops:
  assumes "calculate_bert_score E source summary verbose device s = (r, s', ev)"
  shows "\<exists>m d. bert_score s' = Loaded m d
     \<and> filter (\<lambda>e. \<not> is_load e \<and> \<not> is_print e) ev
         = [CallSegment source, CallBert m d [summary, ''dummy''] (segment E source)]
     \<and> ((\<forall>score \<in> set (bert_fn E m d [summary, ''dummy''] (segment E source)). 2 \<le> length score)
          \<and> (verbose \<longrightarrow> 3 \<le> length (bert_fn E m d [summary, ''dummy''] (segment E source)))
        \<longrightarrow> r = Inr (map (\<lambda>score. sum_list (butlast score) / real (length (butlast score)))
                         (bert_fn E m d [summary, ''dummy''] (segment E source))))"
proof -
  obtain m d where md: "(case bert_score s of Name n \<Rightarrow> (n, device) | Loaded m d \<Rightarrow> (m, d)) = (m, d)"
    by (cases "bert_score s") auto
  let ?scores = "bert_fn E m d [summary, ''dummy''] (segment E source)"
  let ?mean = "\<lambda>score. sum_list (butlast score) / real (length (butlast score))"
  have 1: "bert_score s' = Loaded m d"
    using assms md
    by (cases "bert_score s"; cases "filter_scores ?scores []"; cases verbose)
       (auto simp: calculate_bert_score_def seq_def load_bert_slot_def call_segment_def
          call_bert_score_def lift_def ret_def emit_def get_item_def Let_def split: if_splits)
  have 2: "filter (\<lambda>e. \<not> is_load e \<and> \<not> is_print e) ev
         = [CallSegment source, CallBert m d [summary, ''dummy''] (segment E source)]"
    using assms md
    by (cases "bert_score s"; cases "filter_scores ?scores []"; cases verbose)
       (auto simp: calculate_bert_score_def seq_def load_bert_slot_def call_segment_def
          call_bert_score_def lift_def ret_def emit_def get_item_def Let_def split: if_splits)
  have 3: "r = Inr (map ?mean ?scores)"
    if "\<forall>score \<in> set ?scores. 2 \<le> length score" and "verbose \<longrightarrow> 3 \<le> length ?scores"
  proof -
    from that(1) have "filter_scores ?scores [] = Inr (map ?mean ?scores)"
      by (simp add: filter_scores_ok)
    with assms md that(2) show ?thesis
      by (cases "bert_score s"; cases verbose)
         (auto simp: calculate_bert_score_def seq_def load_bert_slot_def call_segment_def
            call_bert_score_def lift_def ret_def emit_def get_item_def Let_def split: if_splits)
  qed
  from 1 2 3 show ?thesis by blast
qed

theorem bert_score_pads_and_drops_witness:
  "calculate_bert_score demo_env ''s'' ''t'' True ''cpu'' demo_init
     = (Inr [1 / 2, 1 / 4, 1 / 8], demo_init\<lparr>bert_score := Loaded ''bert'' ''cpu''\<rparr>,
        [LoadBert ''bert'' ''cpu'', CallSegment ''s'',
         CallBert ''bert'' ''cpu'' [''t'', ''dummy''] [''s''],
         Print (BertOut (1 / 2) (1 / 4) (1 / 8))])
   \<and> bert_fn demo_env ''bert'' ''cpu'' [''t'', ''dummy''] (segment demo_env ''s'')
       = [[1 / 2, 0], [1 / 4, 0], [1 / 8, 0]]
   \<and> map (\<lambda>score. sum_list (butlast score) / real (length (butlast score)))
         [[1 / 2, 0], [1 / 4, 0], [1 / 8, 0]] = [1 / 2, 1 / 4, 1 / 8]"
proof -
  have run: "calculate_bert_score demo_env ''s'' ''t'' True ''cpu'' demo_init
     = (Inr [1 / 2, 1 / 4, 1 / 8], demo_init\<lparr>bert_score := Loaded ''bert'' ''cpu''\<rparr>,
        [LoadBert ''bert'' ''cpu'', CallSegment ''s'',
         CallBert ''bert'' ''cpu'' [''t'', ''dummy''] [''s''],
         Print (BertOut (1 / 2) (1 / 4) (1 / 8))])"
    by (simp add: run_defs Let_def)
  have sc: "bert_fn demo_env ''bert'' ''cpu'' [''t'', ''dummy''] (segment demo_env ''s'')
       = [[1 / 2, 0], [1 / 4, 0], [1 / 8, 0]]"
    by (simp add: demo_env_def segment_def)
  from bert_score_pads_and_drops [OF run] obtain m d where
    md: "bert_score (demo_init\<lparr>bert_score := Loaded ''bert'' ''cpu''\<rparr>) = Loaded m d"
    and imp: "(\<forall>score \<in> set (bert_fn demo_env m d [''t'', ''dummy''] (segment demo_env ''s'')).
                 2 \<le> length score)
          \<and> (True \<longrightarrow> 3 \<le> length (bert_fn demo_env m d [''t'', ''dummy''] (segment demo_env ''s'')))
        \<longrightarrow> Inr [1 / 2, 1 / 4, 1 / 8]
            = (Inr (map (\<lambda>score. sum_list (butlast score) / real (length (butlast score)))
                      (bert_fn demo_env m d [''t'', ''dummy''] (segment demo_env ''s'')))
               :: error + real list)"
    by (elim exE conjE) (rule that, assumption+)
  from md have "m = ''bert''" "d = ''cpu''" by simp_all
  with imp sc have "map (\<lambda>score. sum_list (butlast score) / real (length (butlast score)))
         [[1 / 2, 0], [1 / 4, 0], [1 / 8, 0]] = [1 / 2, 1 / 4, 1 / (8::real)]"
    by simp
  with run sc show ?thesis by simp
qed

section \<open>Verbose printing\<close>

lemma quiet_seq:
  assumes "\<And>s. quiet (m s) = m' s" and "\<And>x s. quiet (f x s) = f' x s"
  shows "quiet (seq m f s) = seq m' f' s"
proof -
  have m: "m' s = quiet (m s)" using assms(1) by simp
  show ?thesis
  proof (cases "m s")
    case (fields r s1 ev1)
    show ?thesis
    proof (cases r)
      case (Inl e)
      with fields m show ?thesis by (simp add: seq_def quiet_def)
    next
      case (Inr x)
      have "f' x s1 = quiet (f x s1)" using assms(2) by simp
      with fields m Inr show ?thesis
        by (cases "f x s1") (simp add: seq_def quiet_def)
    qed
  qed
qed

lemma quiet_ret [simp]: "quiet (ret x s) = ret x s"
  by (simp add: quiet_def ret_def)

lemma quiet_throw [simp]: "quiet (throw e s) = throw e s"
  by (simp add: quiet_def throw_def)

lemma quiet_lift [simp]: "quiet (lift r s) = lift r s"
  by (simp add: quiet_def lift_def)

lemma print_all_no_markup_error:
  assumes "\<And>x. \<not> markup_error E x"
  shows "print_all E outs s = (Inr (), s, map Print outs)"
proof (induction outs arbitrary: s)
  case Nil
  show ?case by (simp add: ret_def)
next
  case (Cons x outs)
  have "print_call E x s = (Inr (), s, [Print x])"
    using assms by (cases x) simp_all
  with Cons.IH show ?case by (simp add: seq_def)
qed

lemma quiet_print_if:
  assumes "\<And>x. \<not> markup_error E x"
  shows "quiet (print_if E True outs s) = print_if E False outs s"
  by (simp add: quiet_def print_if_def print_all_no_markup_error [OF assms] ret_def
        filter_empty_conv)

lemma quiet_call_segment [simp]: "quiet (call_segment E t s) = call_segment E t s"
  by (simp add: quiet_def call_segment_def)

lemma quiet_call_ner [simp]: "quiet (call_ner E l s) = call_ner E l s"
  by (simp add: quiet_def call_ner_def throw_def split: slot.splits)

lemma quiet_call_qg [simp]: "quiet (call_qg E l e s) = call_qg E l e s"
  by (simp add: quiet_def call_qg_def throw_def split: slot.splits)

lemma quiet_call_qa [simp]: "quiet (call_qa E c q s) = call_qa E c q s"
  by (simp add: quiet_def call_qa_def throw_def split: slot.splits)

lemma quiet_call_ie [simp]: "quiet (call_ie E t s) = call_ie E t s"
  by (simp add: quiet_def call_ie_def throw_def split: ie_slot.splits)

lemma quiet_call_bert_score [simp]: "quiet (call_bert_score E c r s) = call_bert_score E c r s"
  by (simp add: quiet_def call_bert_score_def throw_def split: slot.splits)

lemma quiet_get_facts [simp]: "quiet (get_facts E l e s) = get_facts E l e s"
  by (simp add: quiet_def get_facts_closed filter_empty_conv split: slot.splits)

lemma quiet_load_ner_rel [simp]: "quiet (load_ner_rel d s) = load_ner_rel d s"
  by (simp add: quiet_def load_ner_rel_def split: slot.splits)

lemma quiet_load_qg_qa [simp]: "quiet (load_qg_qa d s) = load_qg_qa d s"
  by (simp add: quiet_def load_qg_qa_def split: slot.splits)

lemma quiet_load_ner_only [simp]: "quiet (load_ner_only d s) = load_ner_only d s"
  by (simp add: quiet_def load_ner_only_def split: slot.splits)

lemma quiet_load_ie_slot [simp]: "quiet (load_ie_slot s) = load_ie_slot s"
  by (simp add: quiet_def load_ie_slot_def split: ie_slot.splits)

lemma quiet_load_bert_slot [simp]: "quiet (load_bert_slot d s) = load_bert_slot d s"
  by (simp add: quiet_def load_bert_slot_def split: slot.splits)

lemma quiet_extract_facts:
  assumes ok: "\<And>x. \<not> markup_error E x"
  shows "quiet (extract_facts E source summary True device s)
     = extract_facts E source summary False device s"
  unfolding extract_facts_def Let_def
  by (intro quiet_seq quiet_load_ner_rel quiet_call_segment quiet_call_ner quiet_get_facts
        quiet_print_if [OF ok] quiet_ret)

lemma quiet_extract_qas:
  assumes ok: "\<And>x. \<not> markup_error E x"
  shows "quiet (extract_qas E source summary se sue True device s)
     = extract_qas E source summary se sue False device s"
  unfolding extract_qas_def Let_def
  by (intro quiet_seq quiet_load_qg_qa quiet_load_ner_only quiet_call_segment quiet_call_qg
        quiet_call_qa quiet_print_if [OF ok] quiet_ret)
     (simp_all split: option.splits)

lemma quiet_extract_triples:
  "quiet (extract_triples E source summary True s) = extract_triples E source summary False s"
  unfolding extract_triples_def Let_def
  by (intro quiet_seq quiet_load_ie_slot quiet_call_ie quiet_ret)
     (simp_all add: quiet_def)

lemma quiet_calculate_rouge:
  "quiet (calculate_rouge E source summary True s) = calculate_rouge E source summary False s"
  unfolding calculate_rouge_def Let_def
  by (intro quiet_seq quiet_call_segment quiet_ret)
     (simp_all add: quiet_def emit_def)

lemma calculate_bert_score_closed:
  "calculate_bert_score E source summary verbose device s =
     (let md = (case bert_score s of Name n \<Rightarrow> (n, device) | Loaded m d \<Rightarrow> (m, d));
          s1 = s\<lparr>bert_score := Loaded (fst md) (snd md)\<rparr>;
          ev0 = (case bert_score s of Name n \<Rightarrow> [LoadBert n device] | Loaded m d \<Rightarrow> [])
                @ [CallSegment source,
                   CallBert (fst md) (snd md) [summary, ''dummy''] (segment E source)]
      in case filter_scores (bert_fn E (fst md) (snd md) [summary, ''dummy''] (segment E source)) [] of
           Inl e \<Rightarrow> (Inl e, s1, ev0)
         | Inr fs \<Rightarrow>
             if verbose then
               (if length fs < 3 then (Inl IndexError, s1, ev0)
                else (Inr fs, s1, ev0 @ [Print (BertOut (fs ! 0) (fs ! 1) (fs ! 2))]))
             else (Inr fs, s1, ev0))"
  by (cases "bert_score s"; cases verbose)
     (auto simp: calculate_bert_score_def seq_def load_bert_slot_def call_segment_def
        call_bert_score_def lift_def ret_def emit_def get_item_def Let_def
        split: sum.splits)

lemma quiet_bert_then:
  assumes short: "\<And>fs s. length fs < 3 \<Longrightarrow> K fs s = (Inl IndexError, s, [])"
    and K: "\<And>fs s. quiet (K fs s) = K fs s"
  shows "quiet (seq (calculate_bert_score E source summary True device) K s)
           = seq (calculate_bert_score E source summary False device) K s"
proof -
  obtain m d where md: "(case bert_score s of Name n \<Rightarrow> (n, device) | Loaded m d \<Rightarrow> (m, d)) = (m, d)"
    by (cases "bert_score s") auto
  show ?thesis
  proof (cases "filter_scores (bert_fn E m d [summary, ''dummy''] (segment E source)) []")
    case (Inl e)
    with md show ?thesis
      by (simp add: calculate_bert_score_closed seq_def quiet_def split: slot.splits)
  next
    case (Inr fs)
    let ?s1 = "s\<lparr>bert_score := Loaded m d\<rparr>"
    have k: "K fs ?s1 = quiet (K fs ?s1)" using K by simp
    show ?thesis
    proof (cases "length fs < 3")
      case True
      with md Inr short [of fs ?s1] show ?thesis
        by (simp add: calculate_bert_score_closed seq_def quiet_def split: slot.splits)
    next
      case False
      with md Inr k show ?thesis
        by (cases "K fs ?s1")
           (simp add: calculate_bert_score_closed seq_def quiet_def split: slot.splits)
    qed
  qed
qed

lemma short_bert_score:
  "length fs < 3 \<Longrightarrow>
   seq (lift (get_item fs 0)) (\<lambda>b0.
   seq (lift (get_item fs 1)) (\<lambda>b1.
   seq (lift (get_item fs 2)) (\<lambda>b2. ret (F b0 b1 b2)))) s = (Inl IndexError, s, [])"
  by (cases fs; cases "tl fs"; cases "tl (tl fs)")
     (auto simp: seq_def lift_def get_item_def ret_def)

lemma quiet_call_body:
  assumes ok: "\<And>x. \<not> markup_error E x"
  shows "quiet (call_body E source summary True device t s)
     = call_body E source summary False device t s"
  unfolding call_body_def
  apply (rule quiet_seq [OF quiet_extract_facts [OF ok]])
  apply (simp only: split_beta)
  apply (rule quiet_seq [OF quiet_extract_qas [OF ok]])
  apply (rule quiet_seq [OF quiet_extract_triples])
  apply (rule quiet_seq [OF quiet_calculate_rouge])
  apply (simp only: split_beta)
  apply (rule quiet_bert_then)
   apply (rule short_bert_score, assumption)
  apply (intro quiet_seq quiet_lift quiet_ret)
  done

lemma quiet_call_loop:
  assumes ok: "\<And>x. \<not> markup_error E x"
  shows "quiet (call_loop E pairs True device t s) = call_loop E pairs False device t s"
proof (induction pairs arbitrary: t s)
  case Nil
  show ?case by simp
next
  case (Cons p pairs)
  obtain source summary where p: "p = (source, summary)" by (cases p)
  show ?case
    unfolding p call_loop.simps
    by (rule quiet_seq [OF quiet_call_body [OF ok] Cons.IH])
qed

text \<open>
  When no printed line raises, a verbose run of the entry point and the quiet run on the
  same arguments and the same instance return the same result and leave the same fields;
  their traces differ only by the prints.
\<close>

lemma verbose_agrees_without_markup_error:
  assumes ok: "\<And>x. \<not> markup_error E x"
  shows "quiet (call E sources summaries True device s) = call E sources summaries False device s"
  unfolding call_def Let_def
  by (simp add: quiet_seq [OF quiet_call_loop [OF ok] quiet_lift])

text \<open>
  C8 does not hold of the code. The verbose mode prints with \<^verbatim>\<open>rich.print\<close>, and the
  line \<^verbatim>\<open>f"[Q] {question['question']}\t[Pred] {question['prediction']}"\<close> of
  \<^verbatim>\<open>_print_qas\<close> and the entity line of \<^verbatim>\<open>_print_entities\<close> embed adapter output
  unescaped. In the small environment, for the pair (\<^verbatim>\<open>"[/x]"\<close>, \<^verbatim>\<open>"[/x]"\<close>) the
  question and the predictions are \<^verbatim>\<open>[/x]\<close>: the verbose run of the entry point
  raises \<^verbatim>\<open>MarkupError\<close> at that print, where the quiet run returns the metric
  record; the same for \<^verbatim>\<open>extract_qas\<close> called on its own. With the tagger that
  echoes the sentence, the verbose \<^verbatim>\<open>extract_facts\<close> raises at the entity line,
  where the quiet call returns its entities and score.
\<close>

theorem verbose_print_raises_on_markup:
  "fst (call demo_env (Lst [''[/x]'']) (Lst [''[/x]'']) True ''cpu'' demo_init) = Inl MarkupError
   \<and> fst (call demo_env (Lst [''[/x]'']) (Lst [''[/x]'']) False ''cpu'' demo_init)
       = Inr \<lparr>m_fact_score = 1, m_qa_score = 1, m_triple_score = 1,
              m_rouge = (1 / 2, 1 / 3, 1 / 4),
              m_bert_score = \<lparr>precision = 1 / 2, recall = 1 / 4, f1 = 1 / 8\<rparr>\<rparr>
   \<and> fst (extract_qas demo_env ''[/x]'' ''[/x]'' None None True ''cpu'' demo_init)
       = Inl MarkupError
   \<and> fst (extract_qas demo_env ''[/x]'' ''[/x]'' None None False ''cpu'' demo_init) = Inr 1
   \<and> fst (extract_facts echo_env ''[/x]'' ''[/x]'' True ''cpu'' demo_init) = Inl MarkupError
   \<and> fst (extract_facts echo_env ''[/x]'' ''[/x]'' False ''cpu'' demo_init)
       = Inr ([[\<lparr>ent_word = ''[/x]'', ent_label = ''MISC'', ent_start = 0, ent_end = 4\<rparr>]],
              [[\<lparr>ent_word = ''[/x]'', ent_label = ''MISC'', ent_start = 0, ent_end = 4\<rparr>]], 0)"
  by (simp add: call_defs run_defs echo_env_def Let_def enumerate_eq_zip)

section \<open>Batch aggregation\<close>

text \<open>
  C1 does not hold of the code: the returned \<^verbatim>\<open>bert_score\<close> components are the sums
  over the pairs, not divided by \<^verbatim>\<open>num_pairs\<close> as the six other components are. In
  the small environment one pair (\<^verbatim>\<open>"s"\<close>, \<^verbatim>\<open>"s"\<close>) gives precision 1/2, recall 1/4
  and F1 1/8; the batch of two such pairs gives 1, 1/2 and 1/4, and the same values
  as the single pair for every other component.
\<close>

theorem batch_bert_score_is_summed:
  "fst (call demo_env (Lst [''s'']) (Lst [''s'']) False ''cpu'' demo_init)
     = Inr \<lparr>m_fact_score = 1, m_qa_score = 1, m_triple_score = 1,
            m_rouge = (1 / 2, 1 / 3, 1 / 4),
            m_bert_score = \<lparr>precision = 1 / 2, recall = 1 / 4, f1 = 1 / 8\<rparr>\<rparr>
   \<and> fst (call demo_env (Lst [''s'', ''s'']) (Lst [''s'', ''s'']) False ''cpu'' demo_init)
     = Inr \<lparr>m_fact_score = 1, m_qa_score = 1, m_triple_score = 1,
            m_rouge = (1 / 2, 1 / 3, 1 / 4),
            m_bert_score = \<lparr>precision = 1, recall = 1 / 2, f1 = 1 / 4\<rparr>\<rparr>"
  by (simp add: call_defs run_defs Let_def)

section \<open>Lazy loading\<close>

text \<open>
  C9 does not hold of the code for every order of calls. On a fresh instance
  \<^verbatim>\<open>extract_qas\<close> loads the question generator, the question answerer and, by its own
  guard, the entity tagger; the relation extractor keeps its name. The guard of
  \<^verbatim>\<open>extract_facts\<close> loads only when both the tagger and the relation extractor are
  still names, so a following \<^verbatim>\<open>extract_facts\<close> loads nothing and raises
  \<^verbatim>\<open>TypeError\<close> when \<^verbatim>\<open>get_facts\<close> calls the name.
\<close>

theorem rel_left_unloaded_after_extract_qas:
  "extract_qas demo_env ''a'' ''b'' None None False ''cpu'' demo_init
     = (Inr 0,
        \<lparr>ner = Loaded ''ner'' ''cpu'', rel = Name ''rel'', qg = Loaded ''qg'' ''cpu'',
         qa = Loaded ''qa'' ''cpu'', bert_score = Name ''bert'', ie = NoIE\<rparr>,
        [LoadQg ''qg'' ''cpu'', LoadQa ''qa'' ''cpu'', LoadNer ''ner'' ''cpu'',
         CallSegment ''a'', CallSegment ''b'', CallNer ''ner'' ''cpu'' [''a''],
         CallNer ''ner'' ''cpu'' [''b''], CallQg ''qg'' ''cpu'' [''b''] demo_ents,
         CallQa ''qa'' ''cpu'' ''a'' [\<lparr>qi_question = ''b'', qi_answer = ''A''\<rparr>],
         CallQa ''qa'' ''cpu'' ''b'' [\<lparr>qi_question = ''b'', qi_answer = ''A''\<rparr>]])
   \<and> extract_facts demo_env ''a'' ''b'' False ''cpu''
        \<lparr>ner = Loaded ''ner'' ''cpu'', rel = Name ''rel'', qg = Loaded ''qg'' ''cpu'',
         qa = Loaded ''qa'' ''cpu'', bert_score = Name ''bert'', ie = NoIE\<rparr>
     = (Inl TypeError,
        \<lparr>ner = Loaded ''ner'' ''cpu'', rel = Name ''rel'', qg = Loaded ''qg'' ''cpu'',
         qa = Loaded ''qa'' ''cpu'', bert_score = Name ''bert'', ie = NoIE\<rparr>,
        [CallSegment ''a'', CallSegment ''b'', CallNer ''ner'' ''cpu'' [''a''],
         CallNer ''ner'' ''cpu'' [''b'']])"
  by (simp add: run_defs Let_def)

end
